theory Spec2Isabelle
  imports Main "HOL-Library.Word"
begin

section \<open>Session lifecycle (session/session.go, session/manager.go)\<close>

text \<open>
  A \<open>*Session\<close> is a heap object shared by the registry, by the HTTP handlers and by the
  lifetime timer started in \<open>NewSession\<close>, so the model keeps an explicit store of
  sessions, addressed by \<open>addr\<close>. The process handle \<open>cmd\<close> and the \<open>cancel\<close> function
  of the struct are not data: calling them is an effect on the operating system, recorded
  in order in \<open>oslog\<close>. Times are nanoseconds.
\<close>

type_synonym addr = nat

datatype os_event =
    Spawn string       \<comment> \<open>\<open>cmd.Start()\<close> of the browser of this session id\<close>
  | Cancel string      \<comment> \<open>\<open>cancel()\<close>: the context given to \<open>exec.CommandContext\<close> is cancelled\<close>
  | Kill string        \<comment> \<open>\<open>cmd.Process.Kill()\<close>\<close>
  | RemoveAll string   \<comment> \<open>\<open>os.RemoveAll(path)\<close>\<close>

record Session =
  ID :: string
  CreatedAt :: int
  ExpiresAt :: int
  wsURL :: string
  isClosed :: bool

datatype pc_state = PCNew | PCConnecting | PCConnected | PCDisconnected | PCFailed | PCClosed

record WHIPResource =
  res_ID :: string
  res_PeerConnection :: "nat option"   \<comment> \<open>handle of the peer connection; \<open>None\<close> is nil\<close>
  res_SessionID :: string

text \<open>
  The two process-wide registries, the session store and the effects performed so far:
  \<open>oslog\<close> for the operating system, \<open>pc_closes\<close> for the calls of
  \<open>PeerConnection.Close()\<close>, each entry naming the peer connection closed.
\<close>

record server =
  heap :: "addr \<Rightarrow> Session"
  next_addr :: addr
  sessions :: "string \<rightharpoonup> addr"
  oslog :: "os_event list"
  whipResources :: "string \<rightharpoonup> WHIPResource"
  next_pc :: nat
  pc_closes :: "nat list"

definition profile_dir :: "string \<Rightarrow> string" where
  "profile_dir sid = ''/tmp/chrome-profile-'' @ sid"

subsection \<open>Discovery of the debugger URL\<close>

text \<open>
  The regular expression \<open>DevTools listening on (ws://.+)\n?\<close> applied to one line by
  \<open>FindStringSubmatch\<close>: the leftmost place where the literal prefix is followed by at
  least one character other than a line feed; the group runs from \<open>ws://\<close> as far as
  \<open>.+\<close> reaches, which is up to the next line feed or the end.
\<close>

definition not_lf :: "char \<Rightarrow> bool" where
  "not_lf c = (c \<noteq> CHR 0x0A)"

fun FindStringSubmatch :: "string \<Rightarrow> string option" where
  "FindStringSubmatch [] = None"
| "FindStringSubmatch (c # cs) =
     (if take 27 (c # cs) = ''DevTools listening on ws://'' \<and> takeWhile not_lf (drop 27 (c # cs)) \<noteq> []
      then Some (''ws://'' @ takeWhile not_lf (drop 27 (c # cs)))
      else FindStringSubmatch cs)"

text \<open>
  What the browser writes on standard error before the 5 second timer of
  \<open>parseDevToolsURL\<close> fires: the lines the scanner returns in that window, and whether
  the stream ends (end of file) in that window after them.
\<close>

record stderr_feed =
  feed_lines :: "string list"
  feed_closed :: bool

datatype parse_error = ScannerClosed | StartupTimeout

fun scan_lines :: "string list \<Rightarrow> string option" where
  "scan_lines [] = None"
| "scan_lines (l # ls) =
     (case FindStringSubmatch l of Some u \<Rightarrow> Some u | None \<Rightarrow> scan_lines ls)"

definition parseDevToolsURL :: "stderr_feed \<Rightarrow> parse_error + string" where
  "parseDevToolsURL f =
     (case scan_lines (feed_lines f) of
        Some u \<Rightarrow> Inr u
      | None \<Rightarrow> if feed_closed f then Inl ScannerClosed else Inl StartupTimeout)"

subsection \<open>NewSession and Stop\<close>

text \<open>
  The environment of one launch: the identifier drawn by \<open>uuid.New()\<close>, whether
  \<open>cmd.StderrPipe()\<close> and \<open>cmd.Start()\<close> succeed (the latter fails when neither
  candidate path holds a browser binary), the standard error of the browser and the two
  readings of the clock.
\<close>

record launch =
  uuid :: string
  pipe_ok :: bool
  start_ok :: bool
  stderr :: stderr_feed
  now_created :: int
  now_expires :: int

datatype session_error = PipeError | StartError | ParseError parse_error

definition NewSession :: "int \<Rightarrow> launch \<Rightarrow> server \<Rightarrow> (session_error + addr) \<times> server" where
  "NewSession duration l w =
     (if \<not> pipe_ok l then (Inl PipeError, w\<lparr>oslog := oslog w @ [Cancel (uuid l)]\<rparr>)
      else if \<not> start_ok l then (Inl StartError, w\<lparr>oslog := oslog w @ [Cancel (uuid l)]\<rparr>)
      else
        (case parseDevToolsURL (stderr l) of
           Inl e \<Rightarrow>
             (Inl (ParseError e),
              w\<lparr>oslog := oslog w @ [Spawn (uuid l), Cancel (uuid l), Kill (uuid l)]\<rparr>)
         | Inr url \<Rightarrow>
             (Inr (next_addr w),
              w\<lparr>heap := (heap w)(next_addr w :=
                     \<lparr>ID = uuid l, CreatedAt = now_created l,
                      ExpiresAt = now_expires l + duration, wsURL = url, isClosed = False\<rparr>),
                next_addr := Suc (next_addr w),
                oslog := oslog w @ [Spawn (uuid l)]\<rparr>)))"

text \<open>
  \<open>Session.Stop\<close> holds the session's mutex from its first statement to its return, so
  each call is one atomic step on the store.
\<close>

definition Stop :: "addr \<Rightarrow> server \<Rightarrow> server" where
  "Stop a w =
     (if isClosed (heap w a) then w
      else w\<lparr>heap := (heap w)(a := (heap w a)\<lparr>isClosed := True\<rparr>),
             oslog := oslog w @ [Cancel (ID (heap w a)), RemoveAll (profile_dir (ID (heap w a)))]\<rparr>)"

definition GetWSURL :: "addr \<Rightarrow> server \<Rightarrow> string" where
  "GetWSURL a w = wsURL (heap w a)"

text \<open>
  The goroutine started by \<open>NewSession\<close> waits for the lifetime to elapse or for the
  context to be done. When the lifetime elapses first it calls \<open>Stop\<close>; the context is
  done only after a \<open>Stop\<close>, and a further \<open>Stop\<close> then changes nothing.
\<close>

definition timer_fires :: "addr \<Rightarrow> server \<Rightarrow> server" where
  "timer_fires a w = Stop a w"

subsection \<open>Manager\<close>

definition NewManager :: server where
  "NewManager =
     \<lparr>heap = (\<lambda>_. \<lparr>ID = [], CreatedAt = 0, ExpiresAt = 0, wsURL = [], isClosed = False\<rparr>),
      next_addr = 0, sessions = Map.empty, oslog = [],
      whipResources = Map.empty, next_pc = 0, pc_closes = []\<rparr>"

definition CreateSession :: "int \<Rightarrow> launch \<Rightarrow> server \<Rightarrow> (session_error + addr) \<times> server" where
  "CreateSession duration l w =
     (case NewSession duration l w of
        (Inl e, w') \<Rightarrow> (Inl e, w')
      | (Inr a, w') \<Rightarrow> (Inr a, w'\<lparr>sessions := (sessions w')(ID (heap w' a) \<mapsto> a)\<rparr>))"

definition GetSession :: "string \<Rightarrow> server \<Rightarrow> addr option" where
  "GetSession sid w = sessions w sid"

definition DeleteSession :: "string \<Rightarrow> server \<Rightarrow> server" where
  "DeleteSession sid w =
     (case sessions w sid of
        Some a \<Rightarrow> (Stop a w)\<lparr>sessions := (sessions (Stop a w))(sid := None)\<rparr>
      | None \<Rightarrow> w)"

text \<open>
  \<open>ListSessions\<close> ranges over the map, in an order the runtime chooses: \<open>order\<close> is
  the sequence in which the keys are visited.
\<close>

definition ListSessions :: "string list \<Rightarrow> server \<Rightarrow> addr list" where
  "ListSessions order w = List.map_filter (sessions w) order"

section \<open>HTTP control plane (main.go)\<close>

text \<open>
  Of a request the handlers read the \<open>Host\<close>, the \<open>X-Forwarded-Proto\<close> header (the empty
  string when absent, as \<open>Header.Get\<close> returns it) and whether \<open>r.TLS\<close> is non-nil. The
  value of \<open>os.Getenv("APP_HOST")\<close> is the first argument of the functions that read it:
  the empty string when the variable is unset.
\<close>

record request =
  Host :: string
  XForwardedProto :: string
  TLS :: bool

definition resolveHost :: "string \<Rightarrow> request \<Rightarrow> string" where
  "resolveHost app_host r = (if app_host \<noteq> [] then app_host else Host r)"

definition resolveScheme :: "string \<Rightarrow> request \<Rightarrow> string" where
  "resolveScheme app_host r =
     (if XForwardedProto r \<noteq> [] then XForwardedProto r
      else if TLS r then ''https''
      else if app_host \<noteq> [] then ''https''
      else ''http'')"

definition resolveWSScheme :: "string \<Rightarrow> request \<Rightarrow> string" where
  "resolveWSScheme app_host r = (if resolveScheme app_host r = ''https'' then ''wss'' else ''ws'')"

record SessionResponse =
  resp_ID :: string
  resp_CDPURL :: string
  resp_PreviewURL :: string
  resp_CreatedAt :: int
  resp_ExpiresAt :: int

definition session_response :: "string \<Rightarrow> request \<Rightarrow> Session \<Rightarrow> SessionResponse" where
  "session_response app_host r s =
     \<lparr>resp_ID = ID s,
      resp_CDPURL = resolveWSScheme app_host r @ ''://'' @ resolveHost app_host r @ ''/sessions/'' @ ID s @ ''/cdp'',
      resp_PreviewURL = resolveScheme app_host r @ ''://'' @ resolveHost app_host r @ ''/sessions/'' @ ID s @ ''/preview'',
      resp_CreatedAt = CreatedAt s,
      resp_ExpiresAt = ExpiresAt s\<rparr>"

text \<open>
  \<open>createSessionHandler\<close>. The body is given by what the JSON decoder makes of it:
  \<open>None\<close> when decoding fails, else the \<open>duration_minutes\<close> read (a 64-bit \<open>int\<close>). The
  duration is \<open>time.Duration(minutes) * time.Minute\<close>, a 64-bit product.
\<close>

definition createSessionHandler ::
  "string \<Rightarrow> request \<Rightarrow> 64 word option \<Rightarrow> launch \<Rightarrow> server \<Rightarrow> (nat \<times> SessionResponse option) \<times> server" where
  "createSessionHandler app_host r body l w =
     (let m0 = (case body of None \<Rightarrow> 5 | Some m \<Rightarrow> m);
          m = (if sint m0 \<le> 0 then 5 else m0);
          duration = m * 60000000000
      in case CreateSession (sint duration) l w of
           (Inl e, w') \<Rightarrow> ((500, None), w')
         | (Inr a, w') \<Rightarrow> ((200, Some (session_response app_host r (heap w' a))), w'))"

definition listSessionsHandler ::
  "string \<Rightarrow> request \<Rightarrow> string list \<Rightarrow> server \<Rightarrow> nat \<times> SessionResponse list" where
  "listSessionsHandler app_host r order w =
     (200, map (\<lambda>a. session_response app_host r (heap w a)) (ListSessions order w))"

definition stopSessionHandler :: "string \<Rightarrow> server \<Rightarrow> nat \<times> server" where
  "stopSessionHandler sid w = (200, DeleteSession sid w)"

text \<open>
  \<open>proxy.ProxyCDP\<close> answers 502 when the debugger cannot be dialled; otherwise the
  connection is upgraded (101) and relayed, or the upgrade itself fails and the upgrader
  has answered with its own client-error status.
\<close>

datatype dial_result = DialFails | UpgradeFails nat | Upgraded

definition ProxyCDP :: "dial_result \<Rightarrow> string \<Rightarrow> nat" where
  "ProxyCDP d targetURL = (case d of DialFails \<Rightarrow> 502 | UpgradeFails st \<Rightarrow> st | Upgraded \<Rightarrow> 101)"

definition cdpProxyHandler :: "dial_result \<Rightarrow> string \<Rightarrow> server \<Rightarrow> nat" where
  "cdpProxyHandler d sid w =
     (case GetSession sid w of
        None \<Rightarrow> 404
      | Some a \<Rightarrow> ProxyCDP d (GetWSURL a w))"

section \<open>WHIP resources (webrtc.go)\<close>

subsection \<open>Reading the offer\<close>

text \<open>
  The request body is an \<open>io.Reader\<close>. The transport delivers it in pieces; one call of
  \<open>Read\<close> copies at most the buffer's length out of the piece at hand and returns
  without waiting for more. After the last piece \<open>Read\<close> returns the error \<open>EOF\<close>; a
  transport failure is an error with another message.
\<close>

datatype body_piece = Bytes string | Fail string

fun body_Read :: "nat \<Rightarrow> body_piece list \<Rightarrow> (string \<times> string option) \<times> body_piece list" where
  "body_Read n [] = (([], Some ''EOF''), [])"
| "body_Read n (Fail e # rest) = (([], Some e), rest)"
| "body_Read n (Bytes seg # rest) =
     ((take n seg, None), (if n < length seg then Bytes (drop n seg) # rest else rest))"

text \<open>
  Lines 120 to 133 of \<open>whipHandler\<close>: a buffer of \<open>r.ContentLength\<close> zero bytes (\<open>make\<close>
  panics on a negative length, and the length is \<open>-1\<close> when the request does not
  announce one, as under chunked transfer encoding), one call of \<open>Read\<close>, and the whole
  buffer as the SDP of the offer.
\<close>

datatype offer_result = MakeslicePanic | ReadRejected | Offer string

definition read_offer :: "int \<Rightarrow> body_piece list \<Rightarrow> offer_result" where
  "read_offer contentLength body =
     (if contentLength < 0 then MakeslicePanic
      else
        (case body_Read (nat contentLength) body of
           ((d, err), rest) \<Rightarrow>
             if err \<noteq> None \<and> err \<noteq> Some ''EOF'' then ReadRejected
             else Offer (d @ replicate (nat contentLength - length d) (CHR 0x00))))"

subsection \<open>Handlers and callbacks\<close>

record whip_request =
  wr_method :: string
  wr_contentType :: string
  wr_contentLength :: int
  wr_body :: "body_piece list"

text \<open>
  What the WebRTC stack and the identifier generator answer during one POST: whether each
  call succeeds (the remote description depending on the SDP it is given), and the SDP of
  the local description once ICE gathering has completed or its 3 seconds have passed.
\<close>

record whip_env =
  resource_uuid :: string
  new_pc_ok :: bool
  set_remote_ok :: "string \<Rightarrow> bool"
  create_answer_ok :: bool
  set_local_ok :: bool
  local_sdp :: string

datatype http_reply =
    Status nat
  | Created string string   \<comment> \<open>201 with the \<open>Location\<close> header and the answer SDP\<close>
  | HandlerPanic

definition whipHandler :: "whip_request \<Rightarrow> string \<Rightarrow> whip_env \<Rightarrow> server \<Rightarrow> http_reply \<times> server" where
  "whipHandler rq sid env w =
     (if wr_method rq \<noteq> ''POST'' then (Status 405, w)
      else
        (case GetSession sid w of
           None \<Rightarrow> (Status 404, w)
         | Some sess \<Rightarrow>
             if wr_contentType rq \<noteq> ''application/sdp'' then (Status 400, w)
             else
               (case read_offer (wr_contentLength rq) (wr_body rq) of
                  MakeslicePanic \<Rightarrow> (HandlerPanic, w)
                | ReadRejected \<Rightarrow> (Status 400, w)
                | Offer sdp \<Rightarrow>
                    if \<not> new_pc_ok env then (Status 500, w)
                    else if \<not> set_remote_ok env sdp then (Status 400, w\<lparr>next_pc := Suc (next_pc w)\<rparr>)
                    else if \<not> create_answer_ok env then (Status 500, w\<lparr>next_pc := Suc (next_pc w)\<rparr>)
                    else if \<not> set_local_ok env then (Status 500, w\<lparr>next_pc := Suc (next_pc w)\<rparr>)
                    else
                      (Created (''/sessions/'' @ sid @ ''/whip/'' @ resource_uuid env) (local_sdp env),
                       w\<lparr>next_pc := Suc (next_pc w),
                         whipResources := (whipResources w)(resource_uuid env \<mapsto>
                           \<lparr>res_ID = resource_uuid env,
                            res_PeerConnection = Some (next_pc w),
                            res_SessionID = sid\<rparr>)\<rparr>))))"

text \<open>
  The callback registered with \<open>OnConnectionStateChange\<close> for the resource
  \<open>resourceID\<close>, run by the WebRTC stack at each change of state.
\<close>

definition OnConnectionStateChange :: "string \<Rightarrow> pc_state \<Rightarrow> server \<Rightarrow> server" where
  "OnConnectionStateChange resourceID state w =
     (if state = PCFailed \<or> state = PCClosed
      then w\<lparr>whipResources := (whipResources w)(resourceID := None)\<rparr>
      else w)"

definition whipResourceHandler :: "string \<Rightarrow> string \<Rightarrow> server \<Rightarrow> nat \<times> server" where
  "whipResourceHandler method resourceID w =
     (case whipResources w resourceID of
        None \<Rightarrow> (404, w)
      | Some resource \<Rightarrow>
          if method = ''PATCH'' then (204, w)
          else if method = ''DELETE'' then
            (200,
             w\<lparr>pc_closes := (case res_PeerConnection resource of
                               Some pc \<Rightarrow> pc_closes w @ [pc]
                             | None \<Rightarrow> pc_closes w),
               whipResources := (whipResources w)(resourceID := None)\<rparr>)
          else (405, w))"

section \<open>Screencast pump (webrtc.go, streamScreencastToDataChannel)\<close>

subsection \<open>Base64\<close>

text \<open>
  \<open>base64.StdEncoding.DecodeString\<close>: the standard alphabet with mandatory \<open>=\<close>
  padding; carriage returns and line feeds are skipped wherever they stand; the unused
  low bits of a padded group are not checked.
\<close>

type_synonym byte = "8 word"

definition b64_index :: "char \<Rightarrow> nat option" where
  "b64_index c =
     (let n = (of_char c :: nat) in
      if 65 \<le> n \<and> n \<le> 90 then Some (n - 65)
      else if 97 \<le> n \<and> n \<le> 122 then Some (n - 71)
      else if 48 \<le> n \<and> n \<le> 57 then Some (n + 4)
      else if n = 43 then Some 62
      else if n = 47 then Some 63
      else None)"

definition b64_full :: "char \<Rightarrow> char \<Rightarrow> char \<Rightarrow> char \<Rightarrow> byte list option" where
  "b64_full a b c d =
     (case (b64_index a, b64_index b, b64_index c, b64_index d) of
        (Some x, Some y, Some z, Some u) \<Rightarrow>
          (let v = ((x * 64 + y) * 64 + z) * 64 + u
           in Some [of_nat (v div 65536), of_nat (v div 256), of_nat v])
      | _ \<Rightarrow> None)"

definition b64_last :: "char \<Rightarrow> char \<Rightarrow> char \<Rightarrow> char \<Rightarrow> byte list option" where
  "b64_last a b c d =
     (if c = CHR ''='' \<and> d = CHR ''='' then
        (case (b64_index a, b64_index b) of
           (Some x, Some y) \<Rightarrow> Some [of_nat ((x * 64 + y) div 16)]
         | _ \<Rightarrow> None)
      else if d = CHR ''='' then
        (case (b64_index a, b64_index b, b64_index c) of
           (Some x, Some y, Some z) \<Rightarrow>
             (let v = (x * 64 + y) * 64 + z
              in Some [of_nat (v div 1024), of_nat (v div 4)])
         | _ \<Rightarrow> None)
      else b64_full a b c d)"

fun b64_quanta :: "string \<Rightarrow> byte list option" where
  "b64_quanta [] = Some []"
| "b64_quanta [a, b, c, d] = b64_last a b c d"
| "b64_quanta (a # b # c # d # rest) =
     (case b64_full a b c d of
        None \<Rightarrow> None
      | Some bs \<Rightarrow> (case b64_quanta rest of None \<Rightarrow> None | Some cs \<Rightarrow> Some (bs @ cs)))"
| "b64_quanta _ = None"

definition DecodeString :: "string \<Rightarrow> byte list option" where
  "DecodeString s = b64_quanta (filter (\<lambda>c. c \<noteq> CHR 0x0D \<and> c \<noteq> CHR 0x0A) s)"

subsection \<open>The main read loop\<close>

text \<open>
  One result of \<open>conn.ReadMessage\<close> followed by \<open>json.Unmarshal\<close> into a \<open>CDPMessage\<close>:
  a read error, a message that is not the JSON of a \<open>CDPMessage\<close>, or a message. The
  field \<open>Params\<close> holds what \<open>json.Unmarshal(msg.Params, &params)\<close> gives for the raw
  parameters: \<open>None\<close> when it returns an error (as it does when the message has no
  parameters), else the \<open>data\<close> and \<open>sessionId\<close> read.
\<close>

record WebRTCScreencastFrameParams =
  Data :: string
  SessionID :: int

record CDPMessage =
  msg_ID :: int
  Method :: string
  Params :: "WebRTCScreencastFrameParams option"

datatype read_result = ReadError | Malformed | Message CDPMessage

record frame_meta =
  meta_type :: string
  meta_size :: nat

datatype dc_payload = Text frame_meta | Binary "byte list"

text \<open>
  What the pump does, in order: a message taken from the debugger websocket, a call of
  \<open>dc.SendText\<close> or \<open>dc.Send\<close> with its payload and whether it succeeded, and a
  \<open>Page.screencastFrameAck\<close> written to the debugger with its \<open>id\<close> and \<open>sessionId\<close>.
  The success of the data channel's calls is the environment's: \<open>ok n\<close> tells whether
  the call number \<open>n\<close> (from 0) succeeds.
\<close>

datatype pump_event =
    Consumed read_result
  | DCSend dc_payload bool
  | AckWrite "64 word" int

record pump =
  idCounter :: "64 word"
  frameCount :: nat
  dc_calls :: nat
  trace :: "pump_event list"

datatype loop_ctl = Continue | Break

definition chunkSize :: nat where
  "chunkSize = 60000"

function send_chunks :: "(nat \<Rightarrow> bool) \<Rightarrow> byte list \<Rightarrow> nat \<Rightarrow> pump \<Rightarrow> pump" where
  "send_chunks ok data i st =
     (if i < length data then
        (if ok (dc_calls st) then
           send_chunks ok data (i + chunkSize)
             (st\<lparr>dc_calls := Suc (dc_calls st),
                 trace := trace st @
                   [DCSend (Binary (take ((if i + chunkSize > length data then length data else i + chunkSize) - i)
                                      (drop i data))) True]\<rparr>)
         else
           st\<lparr>dc_calls := Suc (dc_calls st),
              trace := trace st @
                [DCSend (Binary (take ((if i + chunkSize > length data then length data else i + chunkSize) - i)
                                   (drop i data))) False]\<rparr>)
      else st)"
  by pat_completeness auto
termination
  by (relation "measure (\<lambda>(ok, data, i, st). length data - i)") (auto simp: chunkSize_def)

declare send_chunks.simps [simp del]

text \<open>
  Lines 446 to 468: the frame-start record, then the chunks. A failed \<open>SendText\<close>
  leaves the read loop; the \<open>break\<close> after a failed \<open>Send\<close> stands inside the chunk
  loop and leaves that loop only.
\<close>

definition send_frame :: "(nat \<Rightarrow> bool) \<Rightarrow> byte list \<Rightarrow> pump \<Rightarrow> loop_ctl \<times> pump" where
  "send_frame ok data st =
     (if \<not> ok (dc_calls st) then
        (Break,
         st\<lparr>dc_calls := Suc (dc_calls st),
            trace := trace st @
              [DCSend (Text \<lparr>meta_type = ''frame-start'', meta_size = length data\<rparr>) False]\<rparr>)
      else
        (Continue,
         send_chunks ok data 0
           (st\<lparr>dc_calls := Suc (dc_calls st),
               trace := trace st @
                 [DCSend (Text \<lparr>meta_type = ''frame-start'', meta_size = length data\<rparr>) True]\<rparr>)))"

definition send_ack :: "int \<Rightarrow> pump \<Rightarrow> pump" where
  "send_ack sessionId st =
     st\<lparr>idCounter := idCounter st + 1,
        trace := trace st @ [AckWrite (idCounter st + 1) sessionId]\<rparr>"

definition handle_message :: "(nat \<Rightarrow> bool) \<Rightarrow> read_result \<Rightarrow> pump \<Rightarrow> loop_ctl \<times> pump" where
  "handle_message ok r st =
     (case r of
        ReadError \<Rightarrow> (Break, st\<lparr>trace := trace st @ [Consumed r]\<rparr>)
      | Malformed \<Rightarrow> (Continue, st\<lparr>trace := trace st @ [Consumed r]\<rparr>)
      | Message msg \<Rightarrow>
          if Method msg = ''Page.screencastFrame'' then
            (case Params msg of
               None \<Rightarrow> (Continue, st\<lparr>frameCount := Suc (frameCount st), trace := trace st @ [Consumed r]\<rparr>)
             | Some params \<Rightarrow>
                 (case DecodeString (Data params) of
                    None \<Rightarrow> (Continue, st\<lparr>frameCount := Suc (frameCount st), trace := trace st @ [Consumed r]\<rparr>)
                  | Some data \<Rightarrow>
                      (case send_frame ok data (st\<lparr>frameCount := Suc (frameCount st), trace := trace st @ [Consumed r]\<rparr>) of
                         (Break, st') \<Rightarrow> (Break, st')
                       | (Continue, st') \<Rightarrow> (Continue, send_ack (SessionID params) st'))))
          else (Continue, st\<lparr>trace := trace st @ [Consumed r]\<rparr>))"

text \<open>
  The loop over the results of the successive reads. The second component tells whether
  the loop has been left; when the results given run out first, the pump is waiting in
  \<open>ReadMessage\<close>.
\<close>

fun main_loop :: "(nat \<Rightarrow> bool) \<Rightarrow> read_result list \<Rightarrow> pump \<Rightarrow> pump \<times> bool" where
  "main_loop ok [] st = (st, False)"
| "main_loop ok (r # rs) st =
     (case handle_message ok r st of
        (Break, st') \<Rightarrow> (st', True)
      | (Continue, st') \<Rightarrow> main_loop ok rs st')"

definition pump_start :: pump where
  "pump_start = \<lparr>idCounter = 100, frameCount = 0, dc_calls = 0, trace = []\<rparr>"

section \<open>Sequences of calls, observations and example states\<close>

text \<open>
  The calls that end a session: the lifetime timer firing, \<open>Stop\<close> called directly, and
  a \<open>DELETE /sessions/{id}\<close> request. A list of them is one interleaving; each call is
  atomic, \<open>Stop\<close> under the session's mutex and \<open>DeleteSession\<close> under the manager's.
\<close>

datatype session_call = TimerFires addr | StopCall addr | DeleteRequest string

fun apply_call :: "session_call \<Rightarrow> server \<Rightarrow> server" where
  "apply_call (TimerFires a) w = timer_fires a w"
| "apply_call (StopCall a) w = Stop a w"
| "apply_call (DeleteRequest sid) w = snd (stopSessionHandler sid w)"

definition run_calls :: "session_call list \<Rightarrow> server \<Rightarrow> server" where
  "run_calls cs w = fold apply_call cs w"

text \<open>
  Observations of a pump's trace: the events added between two states, the chunks
  delivered on the data channel, the calls of the data channel that failed, and the
  acknowledgements written.
\<close>

definition events_since :: "pump \<Rightarrow> pump \<Rightarrow> pump_event list" where
  "events_since st st' = drop (length (trace st)) (trace st')"


fun is_dc_send :: "pump_event \<Rightarrow> bool" where
  "is_dc_send (DCSend p b) = True"
| "is_dc_send e = False"


fun acks_of :: "pump_event list \<Rightarrow> (64 word \<times> int) list" where
  "acks_of [] = []"
| "acks_of (AckWrite i sid # es) = (i, sid) # acks_of es"
| "acks_of (e # es) = acks_of es"



text \<open>
  Example states: a registry holding one session \<open>s1\<close> whose browser announced its
  debugger URL, the same with one WHIP resource \<open>r1\<close>, and a launch whose browser
  announces nothing before the timer fires.
\<close>

definition launch1 :: launch where
  "launch1 =
     \<lparr>uuid = ''s1'', pipe_ok = True, start_ok = True,
      stderr = \<lparr>feed_lines = [''DevTools listening on ws://127.0.0.1:33693/devtools/browser/b1''],
                feed_closed = False\<rparr>,
      now_created = 1000, now_expires = 1001\<rparr>"

definition server1 :: server where
  "server1 = snd (CreateSession 300000000000 launch1 NewManager)"

definition silent_launch :: launch where
  "silent_launch =
     \<lparr>uuid = ''s2'', pipe_ok = True, start_ok = True,
      stderr = \<lparr>feed_lines = [''Fontconfig error: cannot load default config file''],
                feed_closed = False\<rparr>,
      now_created = 2000, now_expires = 2001\<rparr>"

definition whip_env1 :: whip_env where
  "whip_env1 =
     \<lparr>resource_uuid = ''r1'', new_pc_ok = True, set_remote_ok = (\<lambda>sdp. True),
      create_answer_ok = True, set_local_ok = True, local_sdp = ''v=0''\<rparr>"

definition whip_post1 :: whip_request where
  "whip_post1 =
     \<lparr>wr_method = ''POST'', wr_contentType = ''application/sdp'',
      wr_contentLength = 3, wr_body = [Bytes ''v=0'']\<rparr>"

definition server2 :: server where
  "server2 = snd (whipHandler whip_post1 ''s1'' whip_env1 server1)"


definition frame_event :: "string \<Rightarrow> int \<Rightarrow> read_result" where
  "frame_event d sid =
     Message \<lparr>msg_ID = 0, Method = ''Page.screencastFrame'',
              Params = Some \<lparr>Data = d, SessionID = sid\<rparr>\<rparr>"

section \<open>Properties of the session lifecycle\<close>

lemma server1_eval:
  "sessions server1 = [''s1'' \<mapsto> 0] \<and> isClosed (heap server1 0) = False \<and> ID (heap server1 0) = ''s1''
   \<and> oslog server1 = [Spawn ''s1''] \<and> wsURL (heap server1 0) = ''ws://127.0.0.1:33693/devtools/browser/b1''"
  by (simp add: server1_def CreateSession_def NewSession_def launch1_def NewManager_def
      parseDevToolsURL_def not_lf_def)

lemma closed_call:
  assumes "isClosed (heap w a)" "sessions w sid = Some a \<or> sessions w sid = None"
    and "c = TimerFires a \<or> c = StopCall a \<or> c = DeleteRequest sid"
  shows "heap (apply_call c w) = heap w \<and> oslog (apply_call c w) = oslog w
         \<and> (sessions (apply_call c w) sid = Some a \<or> sessions (apply_call c w) sid = None)"
  using assms
  by (auto simp: timer_fires_def Stop_def stopSessionHandler_def DeleteSession_def)

lemma closed_run:
  assumes "isClosed (heap w a)" "sessions w sid = Some a \<or> sessions w sid = None"
    and "set cs \<subseteq> {TimerFires a, StopCall a, DeleteRequest sid}"
  shows "heap (run_calls cs w) = heap w \<and> oslog (run_calls cs w) = oslog w"
  using assms
proof (induction cs arbitrary: w)
  case Nil
  then show ?case by (simp add: run_calls_def)
next
  case (Cons c cs)
  from Cons.prems have c: "c = TimerFires a \<or> c = StopCall a \<or> c = DeleteRequest sid"
    and cs: "set cs \<subseteq> {TimerFires a, StopCall a, DeleteRequest sid}" by auto
  note step = closed_call [OF Cons.prems(1) Cons.prems(2) c]
  have "isClosed (heap (apply_call c w) a)" using step Cons.prems(1) by simp
  from Cons.IH [OF this _ cs] step
  show ?case by (simp add: run_calls_def)
qed

lemma first_call:
  assumes "\<not> isClosed (heap w a)" "sessions w sid = Some a"
    and "c = TimerFires a \<or> c = StopCall a \<or> c = DeleteRequest sid"
  shows "isClosed (heap (apply_call c w) a)
         \<and> oslog (apply_call c w) = oslog w @ [Cancel (ID (heap w a)), RemoveAll (profile_dir (ID (heap w a)))]
         \<and> (sessions (apply_call c w) sid = Some a \<or> sessions (apply_call c w) sid = None)"
  using assms
  by (auto simp: timer_fires_def Stop_def stopSessionHandler_def DeleteSession_def)

text \<open>
  C8. \<open>Session.Stop\<close> is idempotent. Take a session that is open and registered under
  \<open>sid\<close>, and any non-empty interleaving of the lifetime timer firing, direct calls of
  \<open>Stop\<close> and \<open>DELETE\<close> requests for it. Afterwards the session is closed, the effects
  added are one cancellation of the subprocess's context followed by one removal of the
  private data directory, each exactly once whatever the number and order of the calls,
  and one more \<open>Stop\<close> changes nothing.
\<close>

theorem Stop_idempotent:
  assumes "\<not> isClosed (heap w a)" and "sessions w sid = Some a"
    and "cs \<noteq> []" and "set cs \<subseteq> {TimerFires a, StopCall a, DeleteRequest sid}"
  shows "isClosed (heap (run_calls cs w) a)
         \<and> oslog (run_calls cs w) = oslog w @ [Cancel (ID (heap w a)), RemoveAll (profile_dir (ID (heap w a)))]
         \<and> Stop a (run_calls cs w) = run_calls cs w"
proof -
  from assms(3) obtain c cs' where cs: "cs = c # cs'" by (cases cs) auto
  with assms(4) have c: "c = TimerFires a \<or> c = StopCall a \<or> c = DeleteRequest sid"
    and cs': "set cs' \<subseteq> {TimerFires a, StopCall a, DeleteRequest sid}" by auto
  note f = first_call [OF assms(1) assms(2) c]
  from f have cl: "isClosed (heap (apply_call c w) a)" by simp
  from f have reg: "sessions (apply_call c w) sid = Some a \<or> sessions (apply_call c w) sid = None" by simp
  note r = closed_run [OF cl reg cs']
  have run: "run_calls cs w = run_calls cs' (apply_call c w)" by (simp add: cs run_calls_def)
  have closed: "isClosed (heap (run_calls cs w) a)" using r cl run by simp
  moreover have "oslog (run_calls cs w) = oslog w @ [Cancel (ID (heap w a)), RemoveAll (profile_dir (ID (heap w a)))]"
    using r f run by simp
  moreover have "Stop a (run_calls cs w) = run_calls cs w" using closed by (simp add: Stop_def)
  ultimately show ?thesis by simp
qed

theorem Stop_idempotent_witness:
  "isClosed (heap (run_calls [TimerFires 0, DeleteRequest ''s1'', StopCall 0, TimerFires 0] server1) 0)
   \<and> oslog (run_calls [TimerFires 0, DeleteRequest ''s1'', StopCall 0, TimerFires 0] server1)
       = [Spawn ''s1'', Cancel ''s1'', RemoveAll ''/tmp/chrome-profile-s1'']
   \<and> isClosed (heap (run_calls [DeleteRequest ''s1'', TimerFires 0] server1) 0)
   \<and> oslog (run_calls [DeleteRequest ''s1'', TimerFires 0] server1)
       = [Spawn ''s1'', Cancel ''s1'', RemoveAll ''/tmp/chrome-profile-s1'']"
  using Stop_idempotent [of server1 0 "''s1''" "[TimerFires 0, DeleteRequest ''s1'', StopCall 0, TimerFires 0]"]
    Stop_idempotent [of server1 0 "''s1''" "[DeleteRequest ''s1'', TimerFires 0]"]
    server1_eval
  by (simp add: profile_dir_def)

lemma timer_keeps_registry: "GetSession sid (timer_fires a w) = GetSession sid w"
  by (simp add: GetSession_def timer_fires_def Stop_def)

text \<open>
  C1. After a session has been stopped by its lifetime timer, lookups of its id should
  return not-found. \<open>Stop\<close> closes the session and never touches the registry, and
  nothing else removes the entry: once the timer of \<open>s1\<close> has fired, the session is
  closed and its data directory removed, yet \<open>GetSession\<close> still returns it, a request
  on \<open>/sessions/s1/cdp\<close> dials the dead debugger and answers 502, and a POST on
  \<open>/sessions/s1/whip\<close> still creates a resource.
\<close>

theorem expired_session_still_found:
  "GetSession ''s1'' (timer_fires 0 server1) = Some 0
   \<and> isClosed (heap (timer_fires 0 server1) 0)
   \<and> oslog (timer_fires 0 server1) = [Spawn ''s1'', Cancel ''s1'', RemoveAll ''/tmp/chrome-profile-s1'']
   \<and> cdpProxyHandler DialFails ''s1'' (timer_fires 0 server1) = 502
   \<and> fst (whipHandler whip_post1 ''s1'' whip_env1 (timer_fires 0 server1)) = Created ''/sessions/s1/whip/r1'' ''v=0''"
  using server1_eval
  by (simp add: GetSession_def timer_fires_def Stop_def cdpProxyHandler_def ProxyCDP_def
      profile_dir_def whipHandler_def whip_post1_def whip_env1_def read_offer_def)

text \<open>
  C4, as stated, fails: \<open>stopSessionHandler\<close> answers 200 without looking at the
  registry, so the second \<open>DELETE\<close> of \<open>s1\<close>, the session now absent, answers 200
  and not 404.
\<close>

theorem second_delete_answers_200:
  "GetSession ''s1'' server1 = Some 0
   \<and> fst (stopSessionHandler ''s1'' server1) = 200
   \<and> GetSession ''s1'' (snd (stopSessionHandler ''s1'' server1)) = None
   \<and> fst (stopSessionHandler ''s1'' (snd (stopSessionHandler ''s1'' server1))) = 200
   \<and> fst (stopSessionHandler ''s1'' (snd (stopSessionHandler ''s1'' server1))) \<noteq> 404"
  using server1_eval
  by (simp add: GetSession_def stopSessionHandler_def DeleteSession_def)

text \<open>
  C4, amended. Deleting a session is idempotent at the HTTP surface: the first
  \<open>DELETE /sessions/{id}\<close> on an existing session answers 200 and leaves the id absent
  from the registry; a second \<open>DELETE\<close> of the same id answers 200 again and changes
  nothing, neither the registry nor any other part of the state.
\<close>

theorem delete_twice:
  assumes "GetSession sid w = Some a"
  shows "fst (stopSessionHandler sid w) = 200
         \<and> GetSession sid (snd (stopSessionHandler sid w)) = None
         \<and> stopSessionHandler sid (snd (stopSessionHandler sid w)) = (200, snd (stopSessionHandler sid w))"
  using assms
  by (simp add: GetSession_def stopSessionHandler_def DeleteSession_def)

theorem delete_twice_witness:
  "GetSession ''s1'' server1 = Some 0
   \<and> fst (stopSessionHandler ''s1'' server1) = 200
   \<and> GetSession ''s1'' (snd (stopSessionHandler ''s1'' server1)) = None
   \<and> stopSessionHandler ''s1'' (snd (stopSessionHandler ''s1'' server1))
       = (200, snd (stopSessionHandler ''s1'' server1))"
  using delete_twice [of "''s1''" server1 0] server1_eval
  by (simp add: GetSession_def)

text \<open>
  C5. When the browser announces no debugger URL before the 5 second timer fires,
  session creation should kill the subprocess, remove the private data directory and
  fail with the startup-timeout error. \<open>NewSession\<close> cancels the context, kills the
  process and returns the error, and \<open>CreateSession\<close> registers nothing; but the
  directory \<open>/tmp/chrome-profile-s2\<close> that the browser was started on is never removed:
  \<open>os.RemoveAll\<close> is called by \<open>Stop\<close> only.
\<close>

theorem startup_timeout_keeps_data_dir:
  "NewSession 300000000000 silent_launch server1
     = (Inl (ParseError StartupTimeout),
        server1\<lparr>oslog := [Spawn ''s1'', Spawn ''s2'', Cancel ''s2'', Kill ''s2'']\<rparr>)
   \<and> RemoveAll (profile_dir ''s2'') \<notin> set (oslog (snd (NewSession 300000000000 silent_launch server1)))
   \<and> sessions (snd (CreateSession 300000000000 silent_launch server1)) = sessions server1"
  using server1_eval
  by (simp add: NewSession_def CreateSession_def silent_launch_def parseDevToolsURL_def not_lf_def)

section \<open>Properties of the URL derivation\<close>

text \<open>
  C6, as stated, fails: a non-empty \<open>X-Forwarded-Proto\<close> header is returned as the
  scheme before TLS and \<open>APP_HOST\<close> are looked at. With \<open>APP_HOST=h\<close> and a request
  whose header says \<open>http\<close>, the scheme is \<open>http\<close> and the \<open>cdp_url\<close> of the
  response starts with \<open>ws\<close>, not \<open>wss\<close>.
\<close>

theorem forwarded_proto_overrides_app_host:
  "resolveScheme ''h'' \<lparr>Host = ''localhost:8080'', XForwardedProto = ''http'', TLS = False\<rparr> = ''http''
   \<and> fst (createSessionHandler ''h'' \<lparr>Host = ''localhost:8080'', XForwardedProto = ''http'', TLS = False\<rparr>
            (Some 5) launch1 NewManager)
       = (200, Some \<lparr>resp_ID = ''s1'', resp_CDPURL = ''ws://h/sessions/s1/cdp'',
                     resp_PreviewURL = ''http://h/sessions/s1/preview'',
                     resp_CreatedAt = 1000, resp_ExpiresAt = 300000001001\<rparr>)"
  by (simp add: resolveScheme_def resolveWSScheme_def resolveHost_def createSessionHandler_def
      session_response_def CreateSession_def NewSession_def launch1_def NewManager_def
      parseDevToolsURL_def not_lf_def)

lemma createSessionHandler_response:
  assumes "createSessionHandler app_host r body l w = ((st, Some resp), w')"
  shows "\<exists>s. resp = session_response app_host r s"
  using assms
  by (auto simp: createSessionHandler_def Let_def split: prod.splits sum.splits)

text \<open>
  C6, amended. The derived scheme is the value of the \<open>X-Forwarded-Proto\<close> header
  whenever that header is non-empty; when it is empty the scheme is \<open>https\<close> if the
  request arrived over TLS or \<open>APP_HOST\<close> is set, and \<open>http\<close> otherwise. So the
  scheme is \<open>https\<close> exactly when the header says \<open>https\<close>, or the header is empty
  and TLS or \<open>APP_HOST\<close> holds. The websocket scheme is \<open>wss\<close> when the scheme is
  \<open>https\<close> and \<open>ws\<close> otherwise. Whenever \<open>APP_HOST=h\<close> is set, the \<open>cdp_url\<close>
  of a SessionResponse, from the create and from the list handler, has host \<open>h\<close> for
  every request, regardless of the request's own headers, and it has scheme \<open>wss\<close>
  whenever the request's header is empty or says \<open>https\<close>.
\<close>

theorem url_derivation:
  "(resolveScheme app_host r = ''https'')
     = (XForwardedProto r = ''https'' \<or> (XForwardedProto r = [] \<and> (TLS r \<or> app_host \<noteq> [])))
   \<and> (XForwardedProto r \<noteq> [] \<longrightarrow> resolveScheme app_host r = XForwardedProto r)
   \<and> (XForwardedProto r = [] \<and> \<not> TLS r \<and> app_host = [] \<longrightarrow> resolveScheme app_host r = ''http'')
   \<and> resolveWSScheme app_host r = (if resolveScheme app_host r = ''https'' then ''wss'' else ''ws'')
   \<and> (app_host \<noteq> [] \<and> createSessionHandler app_host r body l w = ((st, Some resp), w')
      \<longrightarrow> resp_CDPURL resp
            = resolveWSScheme app_host r @ ''://'' @ app_host @ ''/sessions/'' @ resp_ID resp @ ''/cdp'')
   \<and> (app_host \<noteq> []
      \<longrightarrow> (\<forall>resp \<in> set (snd (listSessionsHandler app_host r order w)).
             resp_CDPURL resp
               = resolveWSScheme app_host r @ ''://'' @ app_host @ ''/sessions/'' @ resp_ID resp @ ''/cdp''))
   \<and> (app_host \<noteq> [] \<and> (XForwardedProto r = [] \<or> XForwardedProto r = ''https'')
      \<longrightarrow> resolveWSScheme app_host r = ''wss'')
   \<and> (app_host \<noteq> [] \<and> (XForwardedProto r = [] \<or> XForwardedProto r = ''https'')
        \<and> createSessionHandler app_host r body l w = ((st, Some resp), w')
      \<longrightarrow> resp_CDPURL resp = ''wss://'' @ app_host @ ''/sessions/'' @ resp_ID resp @ ''/cdp'')"
proof -
  have a: "(resolveScheme app_host r = ''https'')
     = (XForwardedProto r = ''https'' \<or> (XForwardedProto r = [] \<and> (TLS r \<or> app_host \<noteq> [])))"
    by (auto simp: resolveScheme_def)
  have b: "XForwardedProto r \<noteq> [] \<longrightarrow> resolveScheme app_host r = XForwardedProto r"
    by (simp add: resolveScheme_def)
  have c: "XForwardedProto r = [] \<and> \<not> TLS r \<and> app_host = [] \<longrightarrow> resolveScheme app_host r = ''http''"
    by (simp add: resolveScheme_def)
  have d: "resolveWSScheme app_host r = (if resolveScheme app_host r = ''https'' then ''wss'' else ''ws'')"
    by (simp add: resolveWSScheme_def)
  have host: "resp_CDPURL (session_response app_host r s)
                = resolveWSScheme app_host r @ ''://'' @ app_host @ ''/sessions/''
                  @ resp_ID (session_response app_host r s) @ ''/cdp''"
    if "app_host \<noteq> []" for s
    using that by (simp add: session_response_def resolveHost_def)
  have e: "resp_CDPURL resp
             = resolveWSScheme app_host r @ ''://'' @ app_host @ ''/sessions/'' @ resp_ID resp @ ''/cdp''"
    if h: "app_host \<noteq> []"
      and cr: "createSessionHandler app_host r body l w = ((st, Some resp), w')"
  proof -
    from createSessionHandler_response [OF cr] obtain s where s: "resp = session_response app_host r s" ..
    show ?thesis unfolding s by (rule host [OF h])
  qed
  have f: "\<forall>resp \<in> set (snd (listSessionsHandler app_host r order w)).
             resp_CDPURL resp
               = resolveWSScheme app_host r @ ''://'' @ app_host @ ''/sessions/'' @ resp_ID resp @ ''/cdp''"
    if h: "app_host \<noteq> []"
    using host [OF h] by (auto simp: listSessionsHandler_def)
  have g: "resolveWSScheme app_host r = ''wss''"
    if h: "app_host \<noteq> []" and x: "XForwardedProto r = [] \<or> XForwardedProto r = ''https''"
  proof -
    from h x have "resolveScheme app_host r = ''https''" using a by blast
    then show ?thesis by (simp add: resolveWSScheme_def)
  qed
  have i: "resp_CDPURL resp = ''wss://'' @ app_host @ ''/sessions/'' @ resp_ID resp @ ''/cdp''"
    if h: "app_host \<noteq> []" and x: "XForwardedProto r = [] \<or> XForwardedProto r = ''https''"
      and cr: "createSessionHandler app_host r body l w = ((st, Some resp), w')"
    using e [OF h cr] g [OF h x] by simp
  from a b c d e f g i show ?thesis by blast
qed

theorem url_derivation_witness:
  "resolveScheme ''h'' \<lparr>Host = ''localhost:8080'', XForwardedProto = [], TLS = False\<rparr> = ''https''
   \<and> resolveScheme ''h'' \<lparr>Host = ''localhost:8080'', XForwardedProto = ''http'', TLS = False\<rparr> = ''http''
   \<and> resolveScheme [] \<lparr>Host = ''localhost:8080'', XForwardedProto = [], TLS = False\<rparr> = ''http''
   \<and> resp_CDPURL (the (snd (fst (createSessionHandler ''h'' \<lparr>Host = ''localhost:8080'', XForwardedProto = [], TLS = False\<rparr>
            (Some 5) launch1 NewManager)))) = ''wss://h/sessions/s1/cdp''
   \<and> resp_CDPURL (the (snd (fst (createSessionHandler ''h'' \<lparr>Host = ''localhost:8080'', XForwardedProto = ''http'', TLS = False\<rparr>
            (Some 5) launch1 NewManager)))) = ''ws://h/sessions/s1/cdp''
   \<and> map resp_CDPURL (snd (listSessionsHandler ''h'' \<lparr>Host = ''localhost:8080'', XForwardedProto = ''http'', TLS = False\<rparr>
            [''s1''] server1)) = [''ws://h/sessions/s1/cdp'']"
  using url_derivation [of "''h''" "\<lparr>Host = ''localhost:8080'', XForwardedProto = [], TLS = False\<rparr>"
      "Some 5" launch1 NewManager 200
      "the (snd (fst (createSessionHandler ''h'' \<lparr>Host = ''localhost:8080'', XForwardedProto = [], TLS = False\<rparr> (Some 5) launch1 NewManager)))"
      "snd (createSessionHandler ''h'' \<lparr>Host = ''localhost:8080'', XForwardedProto = [], TLS = False\<rparr> (Some 5) launch1 NewManager)"]
    url_derivation [of "''h''" "\<lparr>Host = ''localhost:8080'', XForwardedProto = ''http'', TLS = False\<rparr>"
      "Some 5" launch1 server1 200
      "the (snd (fst (createSessionHandler ''h'' \<lparr>Host = ''localhost:8080'', XForwardedProto = ''http'', TLS = False\<rparr> (Some 5) launch1 NewManager)))"
      "snd (createSessionHandler ''h'' \<lparr>Host = ''localhost:8080'', XForwardedProto = ''http'', TLS = False\<rparr> (Some 5) launch1 NewManager)"
      "[''s1'']"]
    url_derivation [of "[]" "\<lparr>Host = ''localhost:8080'', XForwardedProto = [], TLS = False\<rparr>"]
    server1_eval
  by (simp add: createSessionHandler_def listSessionsHandler_def ListSessions_def List.map_filter_simps
      session_response_def resolveHost_def CreateSession_def
      NewSession_def launch1_def NewManager_def parseDevToolsURL_def not_lf_def)

section \<open>Properties of the WHIP resources\<close>

lemma session_s1_found: "GetSession ''s1'' server1 = Some 0"
  using server1_eval by (simp add: GetSession_def)

lemma server2_eval:
  "whipResources server2 = [''r1'' \<mapsto> \<lparr>res_ID = ''r1'', res_PeerConnection = Some 0, res_SessionID = ''s1''\<rparr>]
   \<and> pc_closes server2 = [] \<and> next_pc server2 = 1"
  by (simp add: server2_def whipHandler_def whip_post1_def whip_env1_def read_offer_def GetSession_def
      server1_def CreateSession_def NewSession_def launch1_def NewManager_def parseDevToolsURL_def not_lf_def)

text \<open>
  C7. On every path that ends a resource's life its peer connection should be closed
  exactly once. When the connection of \<open>r1\<close> enters the failed state the callback
  removes \<open>r1\<close> from the registry, and a later removal finds nothing (404); but
  \<open>PeerConnection.Close()\<close> has not been called and, the resource being unreachable,
  never will be. Only the \<open>DELETE\<close> path closes the connection, once; the callback
  that follows that close finds the entry gone and changes nothing.
\<close>

theorem failed_connection_never_closed:
  "whipResources (OnConnectionStateChange ''r1'' PCFailed server2) ''r1'' = None
   \<and> pc_closes (OnConnectionStateChange ''r1'' PCFailed server2) = []
   \<and> whipResourceHandler ''DELETE'' ''r1'' (OnConnectionStateChange ''r1'' PCFailed server2)
       = (404, OnConnectionStateChange ''r1'' PCFailed server2)
   \<and> fst (whipResourceHandler ''DELETE'' ''r1'' server2) = 200
   \<and> pc_closes (snd (whipResourceHandler ''DELETE'' ''r1'' server2)) = [0]
   \<and> OnConnectionStateChange ''r1'' PCClosed (snd (whipResourceHandler ''DELETE'' ''r1'' server2))
       = snd (whipResourceHandler ''DELETE'' ''r1'' server2)"
  using server2_eval
  by (simp add: OnConnectionStateChange_def whipResourceHandler_def)

lemma zeros4: "replicate 4 (CHR 0x00) = [CHR 0x00, CHR 0x00, CHR 0x00, CHR 0x00]"
  by (simp add: eval_nat_numeral)

lemma read_offer_split:
  "read_offer 7 [Bytes ''v=0'', Bytes '' o=-'']
     = Offer [CHR ''v'', CHR ''='', CHR ''0'', CHR 0x00, CHR 0x00, CHR 0x00, CHR 0x00]"
  by (simp add: read_offer_def zeros4)

lemma read_offer_unknown_length:
  "read_offer (- 1) [Bytes ''v=0'', Bytes '' o=-''] = MakeslicePanic"
  by (simp add: read_offer_def)

lemma whipHandler_chunked:
  "fst (whipHandler \<lparr>wr_method = ''POST'', wr_contentType = ''application/sdp'',
                     wr_contentLength = - 1, wr_body = [Bytes ''v=0'', Bytes '' o=-'']\<rparr>
          ''s1'' whip_env1 server1) = HandlerPanic"
  by (simp add: whipHandler_def session_s1_found read_offer_unknown_length)

text \<open>
  C10. The WHIP POST handler should read the body until end of file. It calls \<open>Read\<close>
  once: a body of 7 bytes delivered in two pieces gives an offer made of the first piece
  followed by the 4 zero bytes left in the buffer, not the 7 bytes sent; and under
  chunked transfer encoding, where the content length is \<open>-1\<close>, allocating the buffer
  panics before anything is read.
\<close>

theorem single_read_truncates_offer:
  "read_offer 7 [Bytes ''v=0'', Bytes '' o=-'']
     = Offer [CHR ''v'', CHR ''='', CHR ''0'', CHR 0x00, CHR 0x00, CHR 0x00, CHR 0x00]
   \<and> read_offer 7 [Bytes ''v=0'', Bytes '' o=-''] \<noteq> Offer ''v=0 o=-''
   \<and> read_offer (- 1) [Bytes ''v=0'', Bytes '' o=-''] = MakeslicePanic
   \<and> fst (whipHandler \<lparr>wr_method = ''POST'', wr_contentType = ''application/sdp'',
                         wr_contentLength = - 1, wr_body = [Bytes ''v=0'', Bytes '' o=-'']\<rparr>
             ''s1'' whip_env1 server1) = HandlerPanic"
  by (simp add: read_offer_split read_offer_unknown_length whipHandler_chunked)

section \<open>Properties of the screencast pump\<close>

subsection \<open>The chunk loop when every send succeeds\<close>










subsection \<open>The read loop on concrete inputs\<close>

lemma decode_bad: "DecodeString ''!'' = None"
  by (simp add: DecodeString_def)

lemma decode_Man: "DecodeString ''TWFu'' = Some [77, 97, 110]"
  by (simp add: DecodeString_def b64_last_def b64_full_def b64_index_def)

lemma decode_zero: "DecodeString ''AA=='' = Some [0]"
  by (simp add: DecodeString_def b64_last_def b64_full_def b64_index_def)

lemma send_chunks_one:
  "0 < length data \<Longrightarrow> length data \<le> chunkSize \<Longrightarrow>
   send_chunks ok data 0 st
     = st\<lparr>dc_calls := Suc (dc_calls st),
          trace := trace st @ [DCSend (Binary data) (ok (dc_calls st))]\<rparr>"
  by (subst send_chunks.simps, subst send_chunks.simps) simp

text \<open>
  C3, as stated, fails: a \<open>Page.screencastFrame\<close> event whose data is not valid
  base64 is consumed and skipped by \<open>continue\<close> before the acknowledgement is
  reached. The pump goes on to consume the next frame; the only acknowledgement written
  is the one for the second frame, none carries the session id 7 of the first.
\<close>

theorem undecodable_frame_gets_no_ack:
  "main_loop (\<lambda>n. True) [frame_event ''!'' 7, frame_event ''TWFu'' 8] pump_start
     = (\<lparr>idCounter = 101, frameCount = 2, dc_calls = 2,
         trace = [Consumed (frame_event ''!'' 7),
                  Consumed (frame_event ''TWFu'' 8),
                  DCSend (Text \<lparr>meta_type = ''frame-start'', meta_size = 3\<rparr>) True,
                  DCSend (Binary [77, 97, 110]) True,
                  AckWrite 101 8]\<rparr>, False)
   \<and> acks_of (trace (fst (main_loop (\<lambda>n. True) [frame_event ''!'' 7, frame_event ''TWFu'' 8] pump_start)))
       = [(101, 8)]"
  by (simp add: handle_message_def frame_event_def decode_bad decode_Man send_frame_def
      send_chunks_one chunkSize_def send_ack_def pump_start_def)

text \<open>
  C9. A failed data-channel send should end the read loop. A failed frame-start send
  does (second part: nothing follows it and the loop is left). A failed chunk send does
  not (first part: the data channel refuses the chunk of the first frame): the
  \<open>break\<close> leaves the chunk loop only, the frame is acknowledged, and the pump
  consumes the next message, sends its frame-start and chunk and acknowledges it.
\<close>

theorem failed_chunk_send_does_not_stop_pump:
  "main_loop (\<lambda>n. n \<noteq> 1) [frame_event ''AA=='' 7, frame_event ''TWFu'' 8] pump_start
     = (\<lparr>idCounter = 102, frameCount = 2, dc_calls = 4,
         trace = [Consumed (frame_event ''AA=='' 7),
                  DCSend (Text \<lparr>meta_type = ''frame-start'', meta_size = 1\<rparr>) True,
                  DCSend (Binary [0]) False,
                  AckWrite 101 7,
                  Consumed (frame_event ''TWFu'' 8),
                  DCSend (Text \<lparr>meta_type = ''frame-start'', meta_size = 3\<rparr>) True,
                  DCSend (Binary [77, 97, 110]) True,
                  AckWrite 102 8]\<rparr>, False)
   \<and> main_loop (\<lambda>n. n \<noteq> 0) [frame_event ''AA=='' 7, frame_event ''TWFu'' 8] pump_start
     = (\<lparr>idCounter = 100, frameCount = 1, dc_calls = 1,
         trace = [Consumed (frame_event ''AA=='' 7),
                  DCSend (Text \<lparr>meta_type = ''frame-start'', meta_size = 1\<rparr>) False]\<rparr>, True)"
  by (simp add: handle_message_def frame_event_def decode_zero decode_Man send_frame_def
      send_chunks_one chunkSize_def send_ack_def pump_start_def)

subsection \<open>The read loop in general\<close>

lemma send_chunks_trace:
  "\<exists>es. trace (send_chunks ok data i st) = trace st @ es \<and> list_all is_dc_send es"
proof (induction ok data i st rule: send_chunks.induct)
  case (1 ok data i st)
  let ?e = "\<lambda>b. DCSend (Binary (take ((if i + chunkSize > length data then length data else i + chunkSize) - i)
                                      (drop i data))) b"
  show ?case
  proof (cases "i < length data \<and> ok (dc_calls st)")
    case True
    from "1.IH" True obtain es where
      es: "trace (send_chunks ok data (i + chunkSize)
             (st\<lparr>dc_calls := Suc (dc_calls st), trace := trace st @ [?e True]\<rparr>))
           = (trace st @ [?e True]) @ es"
      and dc: "list_all is_dc_send es"
      by auto
    from True have "trace (send_chunks ok data i st) = trace st @ (?e True # es)"
      by (subst send_chunks.simps) (simp add: es)
    moreover from dc have "list_all is_dc_send (?e True # es)" by simp
    ultimately show ?thesis by blast
  next
    case False
    show ?thesis
    proof (cases "i < length data")
      case True
      with False have "trace (send_chunks ok data i st) = trace st @ [?e False]"
        by (subst send_chunks.simps) simp
      moreover have "list_all is_dc_send [?e False]" by simp
      ultimately show ?thesis by blast
    next
      case False
      then have "trace (send_chunks ok data i st) = trace st @ []"
        by (subst send_chunks.simps) simp
      moreover have "list_all is_dc_send []" by simp
      ultimately show ?thesis by blast
    qed
  qed
qed

lemma send_chunks_idCounter: "idCounter (send_chunks ok data i st) = idCounter st"
proof (induction ok data i st rule: send_chunks.induct)
  case (1 ok data i st)
  show ?case
  proof (cases "i < length data \<and> ok (dc_calls st)")
    case True
    with "1.IH" show ?thesis by (subst send_chunks.simps) simp
  next
    case False
    then show ?thesis by (subst send_chunks.simps) auto
  qed
qed

lemma filter_dc: "list_all is_dc_send es \<Longrightarrow> filter is_dc_send es = es"
  by (induction es) auto

lemma acks_of_dc: "list_all is_dc_send es \<Longrightarrow> acks_of (es @ fs) = acks_of fs"
proof (induction es)
  case Nil
  then show ?case by simp
next
  case (Cons e es)
  then show ?case by (cases e) auto
qed

text \<open>
  C3, amended. For every \<open>Page.screencastFrame\<close> event the pump consumes whose
  parameters unmarshal, whose data is valid base64 and whose frame-start send succeeds,
  the pump writes exactly one \<open>Page.screencastFrameAck\<close> carrying the same screencast
  session id, with the next value of the counter as its id, before it consumes the next
  message: the events of the frame are the read, then sends on the data channel only,
  then the acknowledgement, and the loop goes on from there. This holds whether or not
  the chunk sends succeed.
\<close>

theorem ack_after_forwarded_frame:
  assumes "Method msg = ''Page.screencastFrame''" and "Params msg = Some p"
    and "DecodeString (Data p) = Some data" and "ok (dc_calls st)"
  shows "(let st' = snd (handle_message ok (Message msg) st); ev = events_since st st' in
          main_loop ok (Message msg # rs) st = main_loop ok rs st'
          \<and> ev = Consumed (Message msg) # filter is_dc_send ev
                   @ [AckWrite (idCounter st + 1) (SessionID p)]
          \<and> acks_of ev = [(idCounter st + 1, SessionID p)])"
proof -
  let ?st0 = "st\<lparr>frameCount := Suc (frameCount st), trace := trace st @ [Consumed (Message msg)]\<rparr>"
  let ?st1 = "?st0\<lparr>dc_calls := Suc (dc_calls ?st0),
                 trace := trace ?st0 @ [DCSend (Text \<lparr>meta_type = ''frame-start'', meta_size = length data\<rparr>) True]\<rparr>"
  let ?t = "DCSend (Text \<lparr>meta_type = ''frame-start'', meta_size = length data\<rparr>) True"
  from send_chunks_trace [of ok data 0 ?st1] obtain es where
    es: "trace (send_chunks ok data 0 ?st1) = trace ?st1 @ es" and dc: "list_all is_dc_send es"
    by blast
  have sf: "send_frame ok data ?st0 = (Continue, send_chunks ok data 0 ?st1)"
    using assms(4) by (simp add: send_frame_def)
  have hm: "handle_message ok (Message msg) st
              = (Continue, send_ack (SessionID p) (send_chunks ok data 0 ?st1))"
    using assms(1-3) by (simp add: handle_message_def sf)
  have tr: "trace (snd (handle_message ok (Message msg) st))
              = trace st @ Consumed (Message msg) # (?t # es) @ [AckWrite (idCounter st + 1) (SessionID p)]"
    using es by (simp add: hm send_ack_def send_chunks_idCounter)
  have ev: "events_since st (snd (handle_message ok (Message msg) st))
              = Consumed (Message msg) # (?t # es) @ [AckWrite (idCounter st + 1) (SessionID p)]"
    by (simp add: events_since_def tr)
  have fl: "filter is_dc_send (events_since st (snd (handle_message ok (Message msg) st))) = ?t # es"
    by (simp add: ev filter_dc [OF dc])
  have ak: "acks_of (events_since st (snd (handle_message ok (Message msg) st)))
              = [(idCounter st + 1, SessionID p)]"
    using acks_of_dc [OF dc, of "[AckWrite (idCounter st + 1) (SessionID p)]"] by (simp add: ev)
  have ml: "main_loop ok (Message msg # rs) st = main_loop ok rs (snd (handle_message ok (Message msg) st))"
    by (simp add: hm)
  show ?thesis
    unfolding Let_def fl using ml ev ak by simp
qed

theorem ack_after_forwarded_frame_witness:
  "main_loop (\<lambda>n. n \<noteq> 1) [frame_event ''AA=='' 7, frame_event ''TWFu'' 8] pump_start
     = main_loop (\<lambda>n. n \<noteq> 1) [frame_event ''TWFu'' 8]
         (snd (handle_message (\<lambda>n. n \<noteq> 1) (frame_event ''AA=='' 7) pump_start))
   \<and> acks_of (events_since pump_start
         (snd (handle_message (\<lambda>n. n \<noteq> 1) (frame_event ''AA=='' 7) pump_start))) = [(101, 7)]"
  using ack_after_forwarded_frame [of "\<lparr>msg_ID = 0, Method = ''Page.screencastFrame'',
              Params = Some \<lparr>Data = ''AA=='', SessionID = 7\<rparr>\<rparr>" "\<lparr>Data = ''AA=='', SessionID = 7\<rparr>"
      "[0]" "\<lambda>n. n \<noteq> 1" pump_start "[frame_event ''TWFu'' 8]"]
    decode_zero
  by (simp add: Let_def frame_event_def pump_start_def)

subsection \<open>Frame-start and chunks of a forwarded frame\<close>
















end
